theory Spec2Isabelle
  imports Complex_Main "HOL-Library.List_Lexorder" "HOL-Library.Char_ord"
begin

section \<open>Strings and paths\<close>

text \<open>
  Python's \<open>str\<close> is modelled by \<open>string\<close>, one \<open>char\<close> per code point, for the code
  points below 256. \<open>Path\<close> is modelled by the list of its components below the root;
  \<open>Path.name\<close> is the last component and is empty for the root itself.
\<close>

type_synonym path = "string list"

definition path_name :: "path \<Rightarrow> string" where
  "path_name p = (if p = [] then [] else last p)"

definition pjoin :: "path \<Rightarrow> string \<Rightarrow> path" where
  \<comment> \<open>\<open>p / s\<close> for a single component \<open>s\<close>\<close>
  "pjoin p s = p @ [s]"

definition str_of_path :: "path \<Rightarrow> string" where
  "str_of_path p = (if p = [] then ''/'' else concat (map (\<lambda>c. ''/'' @ c) p))"

fun rfind :: "char \<Rightarrow> string \<Rightarrow> int" where
  \<comment> \<open>\<open>str.rfind\<close>: the highest index of the character, or -1\<close>
  "rfind c [] = -1"
| "rfind c (x # xs) =
     (let r = rfind c xs in if r \<noteq> -1 then r + 1 else if x = c then 0 else -1)"

definition path_suffix :: "path \<Rightarrow> string" where
  "path_suffix p =
     (let name = path_name p; i = rfind CHR ''.'' name
      in if 0 < i \<and> i < int (length name) - 1 then drop (nat i) name else [])"

definition path_stem :: "path \<Rightarrow> string" where
  "path_stem p =
     (let name = path_name p; i = rfind CHR ''.'' name
      in if 0 < i \<and> i < int (length name) - 1 then take (nat i) name else name)"

definition lower_char :: "char \<Rightarrow> char" where
  "lower_char c =
     (let n = (of_char c :: nat)
      in if (65 \<le> n \<and> n \<le> 90) \<or> (192 \<le> n \<and> n \<le> 222 \<and> n \<noteq> 215)
         then char_of (n + 32) else c)"

definition lower :: "string \<Rightarrow> string" where
  "lower s = map lower_char s"

section \<open>Extension tables and \<open>get_corrected_filename\<close>\<close>

definition FILETYPE_TO_EXT :: "(string \<times> string) list" where
  "FILETYPE_TO_EXT =
    [(''JPEG'', ''.jpg''), (''PNG'', ''.png''), (''GIF'', ''.gif''), (''WEBP'', ''.webp''),
     (''HEIC'', ''.heic''), (''HEIF'', ''.heic''), (''MP4'', ''.mp4''), (''MOV'', ''.mov''),
     (''QuickTime'', ''.mov''), (''AVI'', ''.avi''), (''WEBM'', ''.webm''), (''MKV'', ''.mkv''),
     (''TIFF'', ''.tiff''), (''BMP'', ''.bmp''), (''CR2'', ''.cr2''), (''NEF'', ''.nef''),
     (''ARW'', ''.arw''), (''DNG'', ''.dng''), (''RAF'', ''.raf''), (''ORF'', ''.orf''),
     (''RW2'', ''.rw2'')]"

definition EXT_ALIASES :: "(string \<times> string) list" where
  "EXT_ALIASES =
    [(''.jpeg'', ''.jpg''), (''.jpe'', ''.jpg''), (''.m4v'', ''.mp4''),
     (''.heif'', ''.heic''), (''.tif'', ''.tiff'')]"

definition dict_get_default :: "('k \<times> 'v) list \<Rightarrow> 'k \<Rightarrow> 'v \<Rightarrow> 'v" where
  \<comment> \<open>\<open>d.get(k, default)\<close>\<close>
  "dict_get_default d k dflt = (case map_of d k of None \<Rightarrow> dflt | Some v \<Rightarrow> v)"

definition get_corrected_filename :: "path \<Rightarrow> string option \<Rightarrow> string \<times> bool" where
  "get_corrected_filename filepath detected_ext =
     (case detected_ext of
        None \<Rightarrow> (path_name filepath, False)
      | Some dext \<Rightarrow>
          (let current_ext = lower (path_suffix filepath);
               normalized_current = dict_get_default EXT_ALIASES current_ext current_ext;
               normalized_detected = dict_get_default EXT_ALIASES dext dext
           in if normalized_current = normalized_detected then (path_name filepath, False)
              else (path_stem filepath @ dext, True)))"

text \<open>
  The alias normalisation as the specification words it: \<open>.jpeg\<close> and \<open>.jpe\<close> become
  \<open>.jpg\<close>, \<open>.m4v\<close> becomes \<open>.mp4\<close>, \<open>.heif\<close> becomes \<open>.heic\<close>, \<open>.tif\<close> becomes \<open>.tiff\<close>,
  and every other extension is left as it is.
\<close>

definition alias_normalized_spec :: "string \<Rightarrow> string" where
  "alias_normalized_spec e =
     (if e = ''.jpeg'' \<or> e = ''.jpe'' then ''.jpg''
      else if e = ''.m4v'' then ''.mp4''
      else if e = ''.heif'' then ''.heic''
      else if e = ''.tif'' then ''.tiff''
      else e)"

section \<open>Exceptions\<close>

text \<open>
  The exception classes the script names or can meet. \<open>IOError\<close> is Python's alias of
  \<open>OSError\<close>; \<open>FileNotFoundError\<close> is a subclass of it; \<open>JSONDecodeError\<close> and
  \<open>UnicodeDecodeError\<close> are subclasses of \<open>ValueError\<close>; \<open>SystemExit\<close> (raised by
  \<open>sys.exit\<close>) is not a subclass of \<open>Exception\<close>.
\<close>

datatype exn =
    FileNotFoundError | OSError | JSONDecodeError | UnicodeDecodeError
  | KeyError | ValueError | TypeError | OverflowError | IndexError | AttributeError
  | OtherException | SystemExit int

definition is_IOError :: "exn \<Rightarrow> bool" where
  "is_IOError e = (e = OSError \<or> e = FileNotFoundError)"

definition is_ValueError :: "exn \<Rightarrow> bool" where
  "is_ValueError e = (e = ValueError \<or> e = JSONDecodeError \<or> e = UnicodeDecodeError)"

definition is_Exception :: "exn \<Rightarrow> bool" where
  "is_Exception e = (case e of SystemExit _ \<Rightarrow> False | _ \<Rightarrow> True)"

definition bind_exn :: "exn + 'a \<Rightarrow> ('a \<Rightarrow> exn + 'b) \<Rightarrow> exn + 'b" where
  "bind_exn r f = (case r of Inl e \<Rightarrow> Inl e | Inr x \<Rightarrow> f x)"

section \<open>String functions of the standard library\<close>

definition is_space :: "char \<Rightarrow> bool" where
  \<comment> \<open>\<open>str.isspace\<close> on the code points below 256\<close>
  "is_space c =
     (let n = (of_char c :: nat) in (9 \<le> n \<and> n \<le> 13) \<or> (28 \<le> n \<and> n \<le> 32) \<or> n = 133 \<or> n = 160)"

definition strip_with :: "(char \<Rightarrow> bool) \<Rightarrow> string \<Rightarrow> string" where
  "strip_with f s = rev (dropWhile f (rev (dropWhile f s)))"

definition strip :: "string \<Rightarrow> string" where
  \<comment> \<open>\<open>s.strip()\<close>\<close>
  "strip s = strip_with is_space s"

definition split_first :: "string \<Rightarrow> exn + string" where
  \<comment> \<open>\<open>s.split()[0]\<close>: the first whitespace-delimited word, IndexError when there is none\<close>
  "split_first s =
     (let t = dropWhile is_space s
      in if t = [] then Inl IndexError else Inr (takeWhile (\<lambda>c. \<not> is_space c) t))"

fun split_newline :: "string \<Rightarrow> string list" where
  \<comment> \<open>\<open>s.split("\n")\<close>\<close>
  "split_newline [] = [[]]"
| "split_newline (c # s) =
     (if c = CHR 0x0A then [] # split_newline s
      else (case split_newline s of [] \<Rightarrow> [[c]] | l # ls \<Rightarrow> (c # l) # ls))"

fun join_newline :: "string list \<Rightarrow> string" where
  \<comment> \<open>\<open>"\n".join(lines)\<close>\<close>
  "join_newline [] = []"
| "join_newline [l] = l"
| "join_newline (l # ls) = l @ [CHR 0x0A] @ join_newline ls"

definition startswith :: "string \<Rightarrow> string \<Rightarrow> bool" where
  "startswith s pre = (take (length pre) s = pre)"

fun contains :: "string \<Rightarrow> string \<Rightarrow> bool" where
  \<comment> \<open>\<open>sub in s\<close> for two strings\<close>
  "contains sub [] = (sub = [])"
| "contains sub (c # s) = (startswith (c # s) sub \<or> contains sub s)"

definition is_digit :: "char \<Rightarrow> bool" where
  "is_digit c = (let n = (of_char c :: nat) in 48 \<le> n \<and> n \<le> 57)"

definition digit_value :: "char \<Rightarrow> int" where
  "digit_value c = of_char c - 48"

fun digits_value :: "int \<Rightarrow> string \<Rightarrow> int option" where
  \<comment> \<open>the digits after the first one, single underscores allowed between digits\<close>
  "digits_value acc [] = Some acc"
| "digits_value acc [c] = (if is_digit c then Some (10 * acc + digit_value c) else None)"
| "digits_value acc (c # d # s) =
     (if c = CHR ''_'' then
        (if is_digit d then digits_value (10 * acc + digit_value d) s else None)
      else if is_digit c then digits_value (10 * acc + digit_value c) (d # s)
      else None)"

definition int_space :: "char \<Rightarrow> bool" where
  \<comment> \<open>the characters \<open>int\<close> strips from both ends of a string\<close>
  "int_space c = (let n = (of_char c :: nat) in (9 \<le> n \<and> n \<le> 13) \<or> n = 32 \<or> n = 133 \<or> n = 160)"

definition py_int_of_str :: "nat \<Rightarrow> string \<Rightarrow> exn + int" where
  \<comment> \<open>\<open>int(s)\<close> for a string; \<open>max_digits\<close> is the interpreter's limit on the number of
      digits (\<open>sys.get_int_max_str_digits()\<close>, 0 for no limit)\<close>
  "py_int_of_str max_digits s =
     (let t = strip_with int_space s;
          neg = (t \<noteq> [] \<and> hd t = CHR ''-'');
          body = (if t \<noteq> [] \<and> (hd t = CHR ''-'' \<or> hd t = CHR ''+'') then tl t else t)
      in case body of
           [] \<Rightarrow> Inl ValueError
         | c # r \<Rightarrow>
             if \<not> is_digit c then Inl ValueError
             else (case digits_value (digit_value c) r of
                     None \<Rightarrow> Inl ValueError
                   | Some n \<Rightarrow>
                       if 0 < max_digits \<and> max_digits < length (filter is_digit body)
                       then Inl ValueError
                       else Inr (if neg then - n else n)))"

section \<open>JSON values and \<open>parse_timestamp\<close>\<close>

text \<open>
  What \<open>json.load\<close> returns. A float is not-a-number, an infinity, or a finite value,
  which is a rational number; \<open>JObj\<close> holds the items of a dict.
\<close>

datatype pyfloat = FNan | FInf | FFinite rat

datatype json =
    JNull | JBool bool | JInt int | JFloat pyfloat | JStr string
  | JArr "json list" | JObj "(string \<times> json) list"

text \<open>
  A \<open>datetime\<close> made by \<open>datetime.fromtimestamp\<close> is modelled by the POSIX timestamp it
  was made from. The interpreter and the platform decide which timestamps are accepted.
\<close>

datatype datetime = Datetime (posix: int)

record platform =
  int_max_str_digits :: nat
  localtime_error :: "int \<Rightarrow> exn option"
    \<comment> \<open>the exception \<open>datetime.fromtimestamp\<close> raises on this timestamp, if any\<close>

definition fromtimestamp :: "platform \<Rightarrow> int \<Rightarrow> exn + datetime" where
  "fromtimestamp pf ts = (case localtime_error pf ts of Some e \<Rightarrow> Inl e | None \<Rightarrow> Inr (Datetime ts))"

definition truncate_rat :: "rat \<Rightarrow> int" where
  "truncate_rat q = (if 0 \<le> q then \<lfloor>q\<rfloor> else \<lceil>q\<rceil>)"

definition py_int :: "platform \<Rightarrow> json \<Rightarrow> exn + int" where
  \<comment> \<open>\<open>int(v)\<close>\<close>
  "py_int pf v =
     (case v of
        JInt i \<Rightarrow> Inr i
      | JBool b \<Rightarrow> Inr (if b then 1 else 0)
      | JFloat f \<Rightarrow> (case f of FNan \<Rightarrow> Inl ValueError | FInf \<Rightarrow> Inl OverflowError
                      | FFinite q \<Rightarrow> Inr (truncate_rat q))
      | JStr s \<Rightarrow> py_int_of_str (int_max_str_digits pf) s
      | _ \<Rightarrow> Inl TypeError)"

definition contains_key :: "string \<Rightarrow> json \<Rightarrow> exn + bool" where
  \<comment> \<open>\<open>key in metadata\<close>\<close>
  "contains_key key metadata =
     (case metadata of
        JObj items \<Rightarrow> Inr (key \<in> fst ` set items)
      | JArr xs \<Rightarrow> Inr (JStr key \<in> set xs)
      | JStr s \<Rightarrow> Inr (contains key s)
      | _ \<Rightarrow> Inl TypeError)"

definition subscript :: "json \<Rightarrow> string \<Rightarrow> exn + json" where
  \<comment> \<open>\<open>v[key]\<close> for a string key\<close>
  "subscript v key =
     (case v of
        JObj items \<Rightarrow> (case map_of items key of None \<Rightarrow> Inl KeyError | Some x \<Rightarrow> Inr x)
      | _ \<Rightarrow> Inl TypeError)"

definition timestamp_of :: "platform \<Rightarrow> json \<Rightarrow> string \<Rightarrow> exn + datetime" where
  \<comment> \<open>\<open>datetime.fromtimestamp(int(metadata[key]["timestamp"]))\<close>\<close>
  "timestamp_of pf metadata key =
     bind_exn (subscript metadata key) (\<lambda>v.
     bind_exn (subscript v ''timestamp'') (\<lambda>t.
     bind_exn (py_int pf t) (\<lambda>ts. fromtimestamp pf ts)))"

definition caught_by_parse :: "exn \<Rightarrow> bool" where
  \<comment> \<open>\<open>except (KeyError, ValueError, TypeError)\<close>\<close>
  "caught_by_parse e = (e = KeyError \<or> is_ValueError e \<or> e = TypeError)"

definition try_field :: "platform \<Rightarrow> json \<Rightarrow> string \<Rightarrow> exn + datetime option" where
  \<comment> \<open>one \<open>if key in metadata: try: ... return ... except ...: pass\<close> block:
      \<open>Inr (Some dt)\<close> when it returns, \<open>Inr None\<close> when control falls through\<close>
  "try_field pf metadata key =
     (case contains_key key metadata of
        Inl e \<Rightarrow> Inl e
      | Inr False \<Rightarrow> Inr None
      | Inr True \<Rightarrow>
          (case timestamp_of pf metadata key of
             Inr dt \<Rightarrow> Inr (Some dt)
           | Inl e \<Rightarrow> if caught_by_parse e then Inr None else Inl e))"

definition parse_timestamp :: "platform \<Rightarrow> json \<Rightarrow> exn + datetime option" where
  "parse_timestamp pf metadata =
     (case try_field pf metadata ''photoTakenTime'' of
        Inl e \<Rightarrow> Inl e
      | Inr (Some dt) \<Rightarrow> Inr (Some dt)
      | Inr None \<Rightarrow> try_field pf metadata ''creationTime'')"

section \<open>The world outside the script\<close>

text \<open>
  Everything the script asks of the file system, of the clock's time zone and of the
  external tool is answered by a \<open>world\<close>; the script's effects are recorded as a list
  of events, in the order in which they happen. A function of the script returns the
  events it caused and either the exception that left it or its result.
\<close>

datatype kind = RegularFile | Directory | OtherKind

record proc_result =
  returncode :: int
  stdout :: string
  stderr :: string

record world =
  iterdir :: "path \<Rightarrow> (string \<times> kind) list"
    \<comment> \<open>the entries of a directory, in the order \<open>Path.iterdir\<close> yields them, each with
        what \<open>is_file\<close> and \<open>is_dir\<close> say of it\<close>
  path_kind :: "path \<Rightarrow> kind option"
    \<comment> \<open>\<open>None\<close> when the path does not exist\<close>
  path_exists :: "path \<Rightarrow> bool"
  load_json :: "path \<Rightarrow> exn + json"
    \<comment> \<open>\<open>open(path, "r")\<close> followed by \<open>json.load\<close>\<close>
  mkdir :: "path \<Rightarrow> exn option"
  copy2 :: "path \<Rightarrow> path \<Rightarrow> exn option"
  run_detect :: "path list \<Rightarrow> exn + proc_result"
    \<comment> \<open>\<open>subprocess.run(["exiftool", "-FileType", "-FileName", "-json"] + files)\<close>\<close>
  json_loads :: "string \<Rightarrow> exn + json"
  write_argfile :: "string \<Rightarrow> exn + string"
    \<comment> \<open>creating the temporary file and writing the content; the file's name\<close>
  run_argfile :: "string \<Rightarrow> string \<Rightarrow> exn + proc_result"
    \<comment> \<open>\<open>subprocess.run(["exiftool", "-@", argfile_path])\<close>, for the name and the
        content of the argfile\<close>
  unlink :: "string \<Rightarrow> exn option"
  strftime_exif :: "int \<Rightarrow> string"
    \<comment> \<open>\<open>dt.strftime("%Y:%m:%d %H:%M:%S")\<close> of the datetime made from this timestamp\<close>

datatype message =
    WarnDetectionFailed string
  | ErrExiftoolNotFound
  | WarnParseOutput exn
  | WarnDetectionError exn
  | DryRunWouldSet string string
  | WarnExiftoolWarnings nat
  | WarnLine string
  | WarnMore nat
  | ErrBatchTimestamp exn
  | NoMediaFiles
  | DetectingFileTypes nat
  | ReadingMetadata
  | SkipNoMetadata string
  | ErrReadMetadata string exn
  | SkipNoTimestamp string
  | FixName string string
  | CopyingFiles nat
  | ErrCopy string exn
  | DryRunWouldCopy string
  | SettingTimestamps nat
  | Done
  | ErrInputMissing path
  | ErrInputNotDir path
  | ErrNoAlbums path
  | FoundAlbums nat path path
  | DryRunMode
  | BlankLine
  | AlbumHeader string
  | Summary nat int int int int
  | DryRunNothingModified

datatype event =
    Print message
  | Iterdir path
  | Exists path
  | LoadJson path
  | Mkdir path
  | Copy2 path path
  | RunExiftoolDetect "path list"
  | WriteArgfile string
  | RunExiftoolArgfile string
  | Unlink string

type_synonym 'a io = "event list \<times> (exn + 'a)"

definition io_bind :: "'a io \<Rightarrow> ('a \<Rightarrow> 'b io) \<Rightarrow> 'b io" where
  "io_bind m f =
     (case m of
        (evs, Inl e) \<Rightarrow> (evs, Inl e)
      | (evs, Inr x) \<Rightarrow> (case f x of (evs', r) \<Rightarrow> (evs @ evs', r)))"

definition io_return :: "'a \<Rightarrow> 'a io" where
  "io_return x = ([], Inr x)"

definition io_raise :: "exn \<Rightarrow> 'a io" where
  "io_raise e = ([], Inl e)"

definition emit :: "event list \<Rightarrow> unit io" where
  "emit evs = (evs, Inr ())"

definition perform :: "event \<Rightarrow> exn + 'a \<Rightarrow> 'a io" where
  \<comment> \<open>an effect: its event, then what the world answers\<close>
  "perform ev r = ([ev], r)"

definition perform_unit :: "event \<Rightarrow> exn option \<Rightarrow> unit io" where
  "perform_unit ev r = ([ev], case r of None \<Rightarrow> Inr () | Some e \<Rightarrow> Inl e)"

definition io_catch :: "'a io \<Rightarrow> (exn \<Rightarrow> 'a io) \<Rightarrow> 'a io" where
  \<comment> \<open>\<open>try: m except: h\<close>; the handler re-raises what it does not catch\<close>
  "io_catch m h =
     (case m of
        (evs, Inl e) \<Rightarrow> (case h e of (evs', r) \<Rightarrow> (evs @ evs', r))
      | (evs, Inr x) \<Rightarrow> (evs, Inr x))"

section \<open>\<open>batch_detect_file_types\<close>\<close>

definition iter_items :: "json \<Rightarrow> exn + json list" where
  \<comment> \<open>what \<open>for item in data\<close> iterates over\<close>
  "iter_items data =
     (case data of
        JArr xs \<Rightarrow> Inr xs
      | JObj items \<Rightarrow> Inr (map (\<lambda>kv. JStr (fst kv)) items)
      | JStr s \<Rightarrow> Inr (map (\<lambda>c. JStr [c]) s)
      | _ \<Rightarrow> Inl TypeError)"

definition item_get :: "json \<Rightarrow> string \<Rightarrow> json \<Rightarrow> exn + json" where
  \<comment> \<open>\<open>item.get(key, default)\<close>\<close>
  "item_get item key dflt =
     (case item of
        JObj items \<Rightarrow> Inr (dict_get_default items key dflt)
      | _ \<Rightarrow> Inl AttributeError)"

definition is_hashable :: "json \<Rightarrow> bool" where
  "is_hashable v = (case v of JArr _ \<Rightarrow> False | JObj _ \<Rightarrow> False | _ \<Rightarrow> True)"

definition filetype_ext :: "json \<Rightarrow> exn + string option" where
  \<comment> \<open>\<open>FILETYPE_TO_EXT.get(file_type)\<close>\<close>
  "filetype_ext file_type =
     (if \<not> is_hashable file_type then Inl TypeError
      else case file_type of JStr s \<Rightarrow> Inr (map_of FILETYPE_TO_EXT s) | _ \<Rightarrow> Inr None)"

text \<open>
  The dict \<open>type_map\<close> is only ever read at file names, which are strings, so the model
  keeps its string keys: a map from file names to the extension or \<open>None\<close>.
\<close>

type_synonym type_map = "string \<Rightarrow> string option option"

fun build_type_map :: "json list \<Rightarrow> type_map \<Rightarrow> exn + type_map" where
  "build_type_map [] type_map = Inr type_map"
| "build_type_map (item # items) type_map =
     bind_exn (item_get item ''FileName'' (JStr [])) (\<lambda>filename.
     bind_exn (item_get item ''FileType'' (JStr [])) (\<lambda>file_type.
     bind_exn (filetype_ext file_type) (\<lambda>ext.
       if \<not> is_hashable filename then Inl TypeError
       else build_type_map items
              (case filename of JStr s \<Rightarrow> type_map(s \<mapsto> ext) | _ \<Rightarrow> type_map))))"

definition type_map_get :: "type_map \<Rightarrow> string \<Rightarrow> string option" where
  \<comment> \<open>\<open>file_types.get(name)\<close>\<close>
  "type_map_get type_map n = (case type_map n of None \<Rightarrow> None | Some v \<Rightarrow> v)"

definition detect_handler :: "exn \<Rightarrow> type_map io" where
  "detect_handler e =
     (if e = FileNotFoundError then ([Print ErrExiftoolNotFound], Inl (SystemExit 1))
      else if e = JSONDecodeError then ([Print (WarnParseOutput e)], Inr Map.empty)
      else if is_Exception e then ([Print (WarnDetectionError e)], Inr Map.empty)
      else io_raise e)"

definition batch_detect_file_types :: "world \<Rightarrow> path list \<Rightarrow> type_map io" where
  "batch_detect_file_types w files =
     (if files = [] then io_return Map.empty
      else io_catch
        (io_bind (perform (RunExiftoolDetect files) (run_detect w files)) (\<lambda>result.
           if returncode result \<noteq> 0 \<and> stdout result = [] then
             io_bind (emit [Print (WarnDetectionFailed (strip (stderr result)))]) (\<lambda>_.
             io_return Map.empty)
           else
             ([], bind_exn (json_loads w (stdout result)) (\<lambda>data.
                  bind_exn (iter_items data) (\<lambda>items. build_type_map items Map.empty)))))
        detect_handler)"

section \<open>\<open>batch_set_timestamps\<close>\<close>

definition format_exif_datetime :: "world \<Rightarrow> datetime \<Rightarrow> string" where
  "format_exif_datetime w dt = strftime_exif w (posix dt)"

definition argfile_block :: "world \<Rightarrow> path \<times> datetime \<Rightarrow> string list" where
  \<comment> \<open>the lines one file adds to \<open>argfile_lines\<close>\<close>
  "argfile_block w fd =
     (let exif_dt = format_exif_datetime w (snd fd)
      in [''-overwrite_original'',
          ''-DateTimeOriginal='' @ exif_dt,
          ''-CreateDate='' @ exif_dt,
          ''-FileModifyDate='' @ exif_dt,
          ''-FileCreateDate='' @ exif_dt,
          str_of_path (fst fd),
          ''-execute''])"

definition argfile_lines :: "world \<Rightarrow> (path \<times> datetime) list \<Rightarrow> string list" where
  "argfile_lines w files_and_times = concat (map (argfile_block w) files_and_times)"

definition leading_int :: "platform \<Rightarrow> string \<Rightarrow> exn + int" where
  \<comment> \<open>\<open>int(line.split()[0])\<close>\<close>
  "leading_int pf line = bind_exn (split_first line) (py_int_of_str (int_max_str_digits pf))"

fun count_lines :: "platform \<Rightarrow> string list \<Rightarrow> int \<times> int \<Rightarrow> int \<times> int" where
  \<comment> \<open>the loop over the lines of the output, on \<open>(updated, unchanged)\<close>; the two
      exceptions \<open>int(line.split()[0])\<close> can raise, ValueError and IndexError, are both
      caught and leave the counters as they are\<close>
  "count_lines pf [] (updated, unchanged) = (updated, unchanged)"
| "count_lines pf (l # ls) (updated, unchanged) =
     (let line = strip l
      in if contains ''image files updated'' line then
           count_lines pf ls
             (case leading_int pf line of Inr n \<Rightarrow> updated + n | Inl _ \<Rightarrow> updated, unchanged)
         else if contains ''image files unchanged'' line then
           count_lines pf ls
             (updated, case leading_int pf line of Inr n \<Rightarrow> unchanged + n | Inl _ \<Rightarrow> unchanged)
         else count_lines pf ls (updated, unchanged))"

definition stderr_report :: "string \<Rightarrow> event list" where
  "stderr_report err =
     (if err = [] then []
      else
        (let stderr_lines = split_newline (strip err);
             real_errors = filter (\<lambda>line. strip line \<noteq> [] \<and> \<not> contains ''FileCreateDate'' line)
                             stderr_lines
         in if real_errors = [] then []
            else Print (WarnExiftoolWarnings (length real_errors))
                 # map (\<lambda>err. Print (WarnLine err)) (take 5 real_errors)
                 @ (if 5 < length real_errors
                    then [Print (WarnMore (length real_errors - 5))] else [])))"

definition timestamps_handler :: "nat \<Rightarrow> exn \<Rightarrow> (int \<times> int) io" where
  "timestamps_handler n e =
     (if e = FileNotFoundError then ([Print ErrExiftoolNotFound], Inl (SystemExit 1))
      else if is_Exception e then ([Print (ErrBatchTimestamp e)], Inr (0, int n))
      else io_raise e)"

definition batch_set_timestamps ::
  "platform \<Rightarrow> world \<Rightarrow> (path \<times> datetime) list \<Rightarrow> bool \<Rightarrow> (int \<times> int) io" where
  "batch_set_timestamps pf w files_and_times dry_run =
     (if files_and_times = [] then io_return (0, 0)
      else if dry_run then
        (map (\<lambda>fd. Print (DryRunWouldSet (path_name (fst fd)) (format_exif_datetime w (snd fd))))
           files_and_times,
         Inr (int (length files_and_times), 0))
      else
        (let content = join_newline (argfile_lines w files_and_times)
         in io_catch
              (io_bind (perform (WriteArgfile content) (write_argfile w content)) (\<lambda>argfile_path.
               io_bind (perform (RunExiftoolArgfile argfile_path)
                          (run_argfile w argfile_path content)) (\<lambda>result.
               io_bind (perform_unit (Unlink argfile_path) (unlink w argfile_path)) (\<lambda>_.
                 (let (updated, unchanged) =
                        count_lines pf (split_newline (stdout result)) (0, 0);
                      total_files = int (length files_and_times);
                      accounted_for = updated + unchanged;
                      error_count = total_files - accounted_for
                  in io_bind (emit (stderr_report (stderr result))) (\<lambda>_.
                     io_return (updated + unchanged, error_count)))))))
              (timestamps_handler (length files_and_times))))"

text \<open>
  The success count as the specification words it: the sum of the leading integers of
  the output lines that contain \<open>image files updated\<close> or \<open>image files unchanged\<close>; a
  line with no leading integer adds nothing.
\<close>

definition leading_integer_spec :: "platform \<Rightarrow> string \<Rightarrow> int" where
  "leading_integer_spec pf line = (case leading_int pf line of Inr n \<Rightarrow> n | Inl _ \<Rightarrow> 0)"

definition success_count_spec :: "platform \<Rightarrow> string \<Rightarrow> int" where
  "success_count_spec pf out =
     sum_list (map (leading_integer_spec pf)
       (filter (\<lambda>l. contains ''image files updated'' l \<or> contains ''image files unchanged'' l)
          (split_newline out)))"

section \<open>Iteration over lists\<close>

text \<open>
  A \<open>for\<close> loop over a list whose body updates the loop's variables: the body is run
  on each element in turn, and an exception that leaves the body leaves the loop.
\<close>

fun io_for :: "'a list \<Rightarrow> ('a \<Rightarrow> 's \<Rightarrow> 's io) \<Rightarrow> 's \<Rightarrow> 's io" where
  "io_for [] body st = io_return st"
| "io_for (x # xs) body st = io_bind (body x st) (\<lambda>st'. io_for xs body st')"

section \<open>\<open>process_album\<close>\<close>

definition media_files_of :: "world \<Rightarrow> path \<Rightarrow> path list" where
  \<comment> \<open>the loop that collects \<open>media_files\<close>\<close>
  "media_files_of w album_path =
     map (\<lambda>ent. pjoin album_path (fst ent))
       (filter (\<lambda>ent. \<not> (fst ent = ''metadata'' \<or> fst ent = ''.DS_Store'') \<and> snd ent \<noteq> Directory)
          (iterdir w album_path))"

record scan_state =
  st_files :: "(path \<times> path \<times> datetime) list"
  st_skipped :: int
  st_errors :: int
  st_renamed :: int

definition scan_one ::
  "platform \<Rightarrow> world \<Rightarrow> path \<Rightarrow> path \<Rightarrow> type_map \<Rightarrow> path \<Rightarrow> scan_state \<Rightarrow> scan_state io" where
  \<comment> \<open>the body of the loop of step 2, for one media file; \<open>st_files\<close> is
      \<open>files_to_process\<close>\<close>
  "scan_one pf w metadata_dir output_dir file_types media_file st =
     (let json_file = pjoin metadata_dir (path_name media_file @ ''.json'')
      in io_bind (perform (Exists json_file) (Inr (path_exists w json_file))) (\<lambda>ex.
         if \<not> ex then
           io_bind (emit [Print (SkipNoMetadata (path_name media_file))]) (\<lambda>_.
           io_return (st\<lparr>st_skipped := st_skipped st + 1\<rparr>))
         else
           io_bind
             (io_catch (io_bind (perform (LoadJson json_file) (load_json w json_file))
                          (\<lambda>metadata. io_return (Some metadata)))
                (\<lambda>e. if e = JSONDecodeError \<or> is_IOError e
                     then io_bind (emit [Print (ErrReadMetadata (path_name media_file) e)])
                            (\<lambda>_. io_return None)
                     else io_raise e))
             (\<lambda>loaded.
                case loaded of
                  None \<Rightarrow> io_return (st\<lparr>st_errors := st_errors st + 1\<rparr>)
                | Some metadata \<Rightarrow>
                    io_bind ([], parse_timestamp pf metadata) (\<lambda>timestamp.
                    case timestamp of
                      None \<Rightarrow>
                        io_bind (emit [Print (SkipNoTimestamp (path_name media_file))]) (\<lambda>_.
                        io_return (st\<lparr>st_skipped := st_skipped st + 1\<rparr>))
                    | Some ts \<Rightarrow>
                        (let detected_ext = type_map_get file_types (path_name media_file);
                             (corrected_name, was_corrected) =
                                get_corrected_filename media_file detected_ext;
                             output_file = pjoin output_dir corrected_name
                         in io_bind (emit (if was_corrected
                                           then [Print (FixName (path_name media_file) corrected_name)]
                                           else [])) (\<lambda>_.
                            io_return
                              (st\<lparr>st_files := st_files st @ [(media_file, output_file, ts)],
                                  st_renamed := (if was_corrected then st_renamed st + 1
                                                 else st_renamed st)\<rparr>)))))))"

definition copy_one ::
  "world \<Rightarrow> bool \<Rightarrow> path \<times> path \<times> datetime \<Rightarrow> (path \<times> datetime) list \<times> int
     \<Rightarrow> ((path \<times> datetime) list \<times> int) io" where
  \<comment> \<open>the body of the loop of step 3, on \<open>(files_for_timestamps, errors)\<close>\<close>
  "copy_one w dry_run item st =
     (let src = fst item; dst = fst (snd item); ts = snd (snd item);
          files_for_timestamps = fst st; errs = snd st
      in if \<not> dry_run then
           (case copy2 w src dst of
              None \<Rightarrow> ([Copy2 src dst], Inr (files_for_timestamps @ [(dst, ts)], errs))
            | Some e \<Rightarrow>
                if is_IOError e
                then ([Copy2 src dst, Print (ErrCopy (path_name src) e)],
                      Inr (files_for_timestamps, errs + 1))
                else ([Copy2 src dst], Inl e))
         else ([Print (DryRunWouldCopy (path_name src))],
               Inr (files_for_timestamps @ [(dst, ts)], errs)))"

definition initial_scan :: scan_state where
  "initial_scan = \<lparr>st_files = [], st_skipped = 0, st_errors = 0, st_renamed = 0\<rparr>"

definition process_album ::
  "platform \<Rightarrow> world \<Rightarrow> path \<Rightarrow> path \<Rightarrow> bool \<Rightarrow> (int \<times> int \<times> int \<times> int) io" where
  "process_album pf w album_path output_base dry_run =
     (let album_name = path_name album_path;
          metadata_dir = pjoin album_path ''metadata'';
          output_dir = pjoin output_base album_name
      in io_bind (perform (Iterdir album_path) (Inr (media_files_of w album_path))) (\<lambda>media_files.
         if media_files = [] then
           io_bind (emit [Print NoMediaFiles]) (\<lambda>_. io_return (0, 0, 0, 0))
         else
           io_bind (emit [Print (DetectingFileTypes (length media_files))]) (\<lambda>_.
           io_bind (batch_detect_file_types w media_files) (\<lambda>file_types.
           io_bind (emit [Print ReadingMetadata]) (\<lambda>_.
           io_bind (if \<not> dry_run then perform_unit (Mkdir output_dir) (mkdir w output_dir)
                    else io_return ()) (\<lambda>_.
           io_bind (io_for media_files (scan_one pf w metadata_dir output_dir file_types)
                      initial_scan) (\<lambda>st.
           if st_files st = [] then
             io_return (0, st_skipped st, st_errors st, st_renamed st)
           else
             io_bind (emit [Print (CopyingFiles (length (st_files st)))]) (\<lambda>_.
             io_bind (io_for (st_files st) (copy_one w dry_run) ([], st_errors st)) (\<lambda>copied.
             if fst copied \<noteq> [] then
               io_bind (emit [Print (SettingTimestamps (length (fst copied)))]) (\<lambda>_.
               io_bind (batch_set_timestamps pf w (fst copied) dry_run) (\<lambda>counts.
               io_bind (emit [Print (if \<not> dry_run then Done else BlankLine)]) (\<lambda>_.
               io_return (fst counts, st_skipped st, snd copied + snd counts, st_renamed st))))
             else io_return (0, st_skipped st, snd copied, st_renamed st))))))))))"

section \<open>\<open>find_albums\<close> and \<open>main\<close>\<close>

definition has_files :: "world \<Rightarrow> path \<Rightarrow> bool" where
  "has_files w item =
     (\<exists>f \<in> set (iterdir w item). snd f = RegularFile \<and> fst f \<noteq> ''.DS_Store'')"

definition has_metadata :: "world \<Rightarrow> path \<Rightarrow> bool" where
  \<comment> \<open>\<open>(item / "metadata").is_dir()\<close>, read off the listing of \<open>item\<close>\<close>
  "has_metadata w item = ((''metadata'', Directory) \<in> set (iterdir w item))"

definition is_candidate :: "string \<times> kind \<Rightarrow> bool" where
  \<comment> \<open>\<open>item.is_dir() and not item.name.startswith(".")\<close>\<close>
  "is_candidate ent = (snd ent = Directory \<and> \<not> startswith (fst ent) ''.'')"

definition find_albums :: "world \<Rightarrow> path \<Rightarrow> path list io" where
  "find_albums w input_dir =
     (let candidates = map (\<lambda>ent. pjoin input_dir (fst ent))
                         (filter is_candidate (iterdir w input_dir));
          albums = filter (\<lambda>item. has_files w item \<or> has_metadata w item) candidates
      in (Iterdir input_dir # map Iterdir candidates, Inr (sort albums)))"

record args =
  arg_input_dir :: path
  arg_output_dir :: path
  arg_dry_run :: bool

definition album_step ::
  "platform \<Rightarrow> world \<Rightarrow> path \<Rightarrow> bool \<Rightarrow> path \<Rightarrow> int \<times> int \<times> int \<times> int
     \<Rightarrow> (int \<times> int \<times> int \<times> int) io" where
  \<comment> \<open>the body of the loop over the albums, on
      \<open>(total_processed, total_skipped, total_errors, total_renamed)\<close>\<close>
  "album_step pf w output_path dry_run album totals =
     io_bind (emit [Print (AlbumHeader (path_name album))]) (\<lambda>_.
     io_bind (process_album pf w album output_path dry_run) (\<lambda>r.
     io_bind (emit [Print BlankLine]) (\<lambda>_.
     io_return (fst totals + fst r,
                fst (snd totals) + fst (snd r),
                fst (snd (snd totals)) + fst (snd (snd r)),
                snd (snd (snd totals)) + snd (snd (snd r))))))"

definition main :: "platform \<Rightarrow> world \<Rightarrow> args \<Rightarrow> unit io" where
  "main pf w a =
     (let input_path = arg_input_dir a; output_path = arg_output_dir a
      in io_bind (perform (Exists input_path) (Inr (path_kind w input_path))) (\<lambda>k.
         if k = None then
           io_bind (emit [Print (ErrInputMissing input_path)]) (\<lambda>_. io_raise (SystemExit 1))
         else if k \<noteq> Some Directory then
           io_bind (emit [Print (ErrInputNotDir input_path)]) (\<lambda>_. io_raise (SystemExit 1))
         else
           io_bind (find_albums w input_path) (\<lambda>albums.
           if albums = [] then
             io_bind (emit [Print (ErrNoAlbums input_path)]) (\<lambda>_. io_raise (SystemExit 1))
           else
             io_bind (emit ([Print (FoundAlbums (length albums) input_path output_path)]
                            @ (if arg_dry_run a then [Print DryRunMode] else [])
                            @ [Print BlankLine])) (\<lambda>_.
             io_bind (if \<not> arg_dry_run a
                      then perform_unit (Mkdir output_path) (mkdir w output_path)
                      else io_return ()) (\<lambda>_.
             io_bind (io_for albums (album_step pf w output_path (arg_dry_run a)) (0, 0, 0, 0))
               (\<lambda>totals.
             io_bind (emit ([Print (Summary (length albums) (fst totals)
                                      (snd (snd (snd totals))) (fst (snd totals))
                                      (fst (snd (snd totals))))]
                            @ (if arg_dry_run a then [Print DryRunNothingModified] else [])))
               (\<lambda>_.
             if 0 < fst (snd (snd totals)) then io_raise (SystemExit 1)
             else io_return ())))))))"

section \<open>Classifying events\<close>

definition is_print :: "event \<Rightarrow> bool" where
  "is_print ev = (case ev of Print _ \<Rightarrow> True | _ \<Rightarrow> False)"

definition modifies_files :: "event \<Rightarrow> bool" where
  \<comment> \<open>the effects that create, write or delete a file or a directory, or run the
      external tool with write options\<close>
  "modifies_files ev =
     (case ev of
        Mkdir _ \<Rightarrow> True | Copy2 _ _ \<Rightarrow> True | WriteArgfile _ \<Rightarrow> True
      | RunExiftoolArgfile _ \<Rightarrow> True | Unlink _ \<Rightarrow> True | _ \<Rightarrow> False)"

definition is_subprocess :: "event \<Rightarrow> bool" where
  "is_subprocess ev =
     (case ev of RunExiftoolDetect _ \<Rightarrow> True | RunExiftoolArgfile _ \<Rightarrow> True | _ \<Rightarrow> False)"

definition is_detect_call :: "event \<Rightarrow> bool" where
  "is_detect_call ev = (case ev of RunExiftoolDetect _ \<Rightarrow> True | _ \<Rightarrow> False)"

definition is_write_call :: "event \<Rightarrow> bool" where
  "is_write_call ev = (case ev of RunExiftoolArgfile _ \<Rightarrow> True | _ \<Rightarrow> False)"

definition stage :: "event \<Rightarrow> nat option" where
  \<comment> \<open>the stage of \<open>process_album\<close> an effect belongs to: 0 listing the album, 1 detecting
      the file types, 2 reading the metadata, 3 copying, 4 writing the timestamps\<close>
  "stage ev =
     (case ev of
        Print _ \<Rightarrow> None
      | Iterdir _ \<Rightarrow> Some 0
      | RunExiftoolDetect _ \<Rightarrow> Some 1
      | Mkdir _ \<Rightarrow> Some 2 | Exists _ \<Rightarrow> Some 2 | LoadJson _ \<Rightarrow> Some 2
      | Copy2 _ _ \<Rightarrow> Some 3
      | WriteArgfile _ \<Rightarrow> Some 4 | RunExiftoolArgfile _ \<Rightarrow> Some 4 | Unlink _ \<Rightarrow> Some 4)"

definition stages :: "event list \<Rightarrow> nat list" where
  "stages evs = List.map_filter stage evs"

definition album_events :: "platform \<Rightarrow> world \<Rightarrow> path \<Rightarrow> bool \<Rightarrow> path \<Rightarrow> event list" where
  \<comment> \<open>what one turn of the loop over the albums does\<close>
  "album_events pf w output_path dry_run album =
     fst (album_step pf w output_path dry_run album (0, 0, 0, 0))"

definition staged :: "nat \<Rightarrow> nat \<Rightarrow> event list \<Rightarrow> bool" where
  \<comment> \<open>the effects come in the order of their stages, and all stages lie between two bounds\<close>
  "staged lo hi evs = (sorted (stages evs) \<and> (\<forall>s \<in> set (stages evs). lo \<le> s \<and> s \<le> hi))"

section \<open>The timestamp of a sidecar, as the specification words it\<close>

text \<open>
  The sidecar of a media file is \<open>metadata/<filename>.json\<close> in the album. The integer
  value of a field's timestamp is \<open>int(metadata[key]["timestamp"])\<close> when the field is
  present and convertible. \<open>claimed_timestamp\<close> follows the specification: the value of
  \<open>photoTakenTime\<close> when there is one, otherwise that of \<open>creationTime\<close>.
  \<open>applied_timestamp\<close> is the same choice among the values that
  \<open>datetime.fromtimestamp\<close> accepts.
\<close>

definition sidecar_of :: "path \<Rightarrow> path \<Rightarrow> path" where
  "sidecar_of album_path media_file =
     pjoin (pjoin album_path ''metadata'') (path_name media_file @ ''.json'')"

definition field_timestamp :: "platform \<Rightarrow> json \<Rightarrow> string \<Rightarrow> int option" where
  "field_timestamp pf metadata key =
     (case bind_exn (subscript metadata key) (\<lambda>v.
           bind_exn (subscript v ''timestamp'') (py_int pf)) of
        Inr ts \<Rightarrow> Some ts
      | Inl _ \<Rightarrow> None)"

definition claimed_timestamp :: "platform \<Rightarrow> json \<Rightarrow> int option" where
  "claimed_timestamp pf metadata =
     (case field_timestamp pf metadata ''photoTakenTime'' of
        Some ts \<Rightarrow> Some ts
      | None \<Rightarrow> field_timestamp pf metadata ''creationTime'')"

definition accepted_timestamp :: "platform \<Rightarrow> json \<Rightarrow> string \<Rightarrow> int option" where
  "accepted_timestamp pf metadata key =
     (case field_timestamp pf metadata key of
        Some ts \<Rightarrow> if localtime_error pf ts = None then Some ts else None
      | None \<Rightarrow> None)"

definition applied_timestamp :: "platform \<Rightarrow> json \<Rightarrow> int option" where
  "applied_timestamp pf metadata =
     (case accepted_timestamp pf metadata ''photoTakenTime'' of
        Some ts \<Rightarrow> Some ts
      | None \<Rightarrow> accepted_timestamp pf metadata ''creationTime'')"

section \<open>A sample export\<close>

text \<open>
  A small world on which the script can be run: an input directory \<open>/in\<close> with the
  album \<open>trip\<close> (five media files, the \<open>metadata\<close> directory and a \<open>.DS_Store\<close>), the
  album \<open>empty\<close> (only a \<open>metadata\<close> directory), a directory \<open>junk\<close> with nothing in it
  but a subdirectory, a hidden directory and a plain file. In \<open>trip\<close>, \<open>a.jpg\<close> is in
  order; \<open>b.PNG\<close> is a JPEG whose \<open>photoTakenTime\<close> is in milliseconds; \<open>c.mov\<close> has no
  sidecar; the sidecar of \<open>d.jpg\<close> is not JSON; \<open>e.jpg\<close> cannot be copied. The sample
  platform accepts the timestamps of the years 1 to 9999 and raises ValueError on the
  others, as CPython does where the time zone is UTC and the year fits the C library.
\<close>

definition demo_platform :: platform where
  "demo_platform =
     \<lparr>int_max_str_digits = 4300,
      localtime_error =
        (\<lambda>ts. if ts < -62135596800 \<or> 253402300799 < ts then Some ValueError else None)\<rparr>"

definition demo_meta_a :: json where
  "demo_meta_a =
     JObj [(''title'', JStr ''a.jpg''),
           (''photoTakenTime'', JObj [(''timestamp'', JStr ''1600000000'')])]"

definition demo_meta_b :: json where
  "demo_meta_b =
     JObj [(''photoTakenTime'', JObj [(''timestamp'', JStr ''10000000000000'')]),
           (''creationTime'', JObj [(''timestamp'', JStr ''1600000100'')])]"

definition demo_meta_e :: json where
  "demo_meta_e = JObj [(''creationTime'', JObj [(''timestamp'', JInt 1600000000)])]"

definition demo_iterdir :: "path \<Rightarrow> (string \<times> kind) list" where
  "demo_iterdir p =
     (if p = [''in''] then
        [(''trip'', Directory), (''.hidden'', Directory), (''notes.txt'', RegularFile),
         (''junk'', Directory), (''empty'', Directory)]
      else if p = [''in'', ''trip''] then
        [(''b.PNG'', RegularFile), (''metadata'', Directory), (''a.jpg'', RegularFile),
         (''.DS_Store'', RegularFile), (''c.mov'', RegularFile), (''d.jpg'', RegularFile),
         (''e.jpg'', RegularFile)]
      else if p = [''in'', ''empty''] then [(''metadata'', Directory)]
      else if p = [''in'', ''junk''] then [(''sub'', Directory), (''.DS_Store'', RegularFile)]
      else if p = [''in'', ''.hidden''] then [(''x.jpg'', RegularFile)]
      else [])"

definition demo_load_json :: "path \<Rightarrow> exn + json" where
  "demo_load_json p =
     (if p = [''in'', ''trip'', ''metadata'', ''a.jpg.json''] then Inr demo_meta_a
      else if p = [''in'', ''trip'', ''metadata'', ''b.PNG.json''] then Inr demo_meta_b
      else if p = [''in'', ''trip'', ''metadata'', ''d.jpg.json''] then Inl JSONDecodeError
      else if p = [''in'', ''trip'', ''metadata'', ''e.jpg.json''] then Inr demo_meta_e
      else Inl FileNotFoundError)"

definition demo_detected :: json where
  "demo_detected =
     JArr [JObj [(''SourceFile'', JStr ''/in/trip/b.PNG''), (''FileType'', JStr ''JPEG''),
                 (''FileName'', JStr ''b.PNG'')],
           JObj [(''SourceFile'', JStr ''/in/trip/a.jpg''), (''FileType'', JStr ''JPEG''),
                 (''FileName'', JStr ''a.jpg'')],
           JObj [(''SourceFile'', JStr ''/in/trip/c.mov''), (''FileType'', JStr ''MOV''),
                 (''FileName'', JStr ''c.mov'')],
           JObj [(''SourceFile'', JStr ''/in/trip/d.jpg''), (''FileType'', JStr ''JPEG''),
                 (''FileName'', JStr ''d.jpg'')],
           JObj [(''SourceFile'', JStr ''/in/trip/e.jpg''), (''FileType'', JStr ''JPEG''),
                 (''FileName'', JStr ''e.jpg'')]]"

definition demo_write_output :: string where
  \<comment> \<open>the tool updates the first file and fails on the second\<close>
  "demo_write_output =
     ''    1 image files updated'' @ [CHR 0x0A] @
     ''    0 image files updated'' @ [CHR 0x0A] @
     ''    1 files weren't updated due to errors'' @ [CHR 0x0A]"

definition demo_world :: world where
  "demo_world =
     \<lparr>iterdir = demo_iterdir,
      path_kind = (\<lambda>p. if p = [''in''] then Some Directory else None),
      path_exists = (\<lambda>p. demo_load_json p \<noteq> Inl FileNotFoundError),
      load_json = demo_load_json,
      mkdir = (\<lambda>p. None),
      copy2 = (\<lambda>src dst. if src = [''in'', ''trip'', ''e.jpg''] then Some OSError else None),
      run_detect = (\<lambda>files. Inr \<lparr>returncode = 0, stdout = ''[...]'', stderr = []\<rparr>),
      json_loads = (\<lambda>s. if s = ''[...]'' then Inr demo_detected else Inl JSONDecodeError),
      write_argfile = (\<lambda>content. Inr ''/tmp/tmpk3v9.txt''),
      run_argfile = (\<lambda>name content.
         Inr \<lparr>returncode = 1, stdout = demo_write_output,
              stderr = ''Error: Not a valid JPG - /out/trip/b.jpg''\<rparr>),
      unlink = (\<lambda>name. None),
      strftime_exif = (\<lambda>ts. if ts = 1600000000 then ''2020:09:13 12:26:40''
                             else if ts = 1600000100 then ''2020:09:13 12:28:20''
                             else ''1970:01:01 00:00:00'')\<rparr>"

definition demo_args :: "bool \<Rightarrow> args" where
  "demo_args dry = \<lparr>arg_input_dir = [''in''], arg_output_dir = [''out''], arg_dry_run = dry\<rparr>"

definition demo_copied :: "(path \<times> datetime) list" where
  \<comment> \<open>the two files of \<open>trip\<close> that reach the output, with their timestamps\<close>
  "demo_copied = [([''out'', ''trip'', ''b.jpg''], Datetime 1600000100),
                  ([''out'', ''trip'', ''a.jpg''], Datetime 1600000000)]"

section \<open>Properties of extension correction\<close>

lemma alias_lookup_spec:
  "dict_get_default EXT_ALIASES e e = alias_normalized_spec e"
  by (simp add: dict_get_default_def EXT_ALIASES_def alias_normalized_spec_def)

lemma rfind_absent: "c \<notin> set t \<Longrightarrow> rfind c t = -1"
  by (induction t) (auto simp: Let_def)

lemma rfind_last_occurrence:
  "c \<notin> set t \<Longrightarrow> rfind c (s @ c # t) = int (length s)"
  by (induction s) (auto simp: Let_def rfind_absent)

lemma suffix_of_dotted_name:
  assumes "s \<noteq> []" "t \<noteq> []" "CHR ''.'' \<notin> set t" "path_name q = s @ CHR ''.'' # t"
  shows "path_suffix q = CHR ''.'' # t"
  using assms by (simp add: path_suffix_def Let_def rfind_last_occurrence)

lemma stem_nonempty: "path_name p \<noteq> [] \<Longrightarrow> path_stem p \<noteq> []"
  by (auto simp: path_stem_def Let_def)

lemma table_ext_shape:
  assumes "e \<in> snd ` set FILETYPE_TO_EXT"
  shows "\<exists>t. e = CHR ''.'' # t \<and> t \<noteq> [] \<and> CHR ''.'' \<notin> set t \<and> lower e = e"
  using assms by (auto simp: FILETYPE_TO_EXT_def lower_def lower_char_def)

text \<open>
  Claim C3. \<open>get_corrected_filename\<close> returns the original file name and \<open>False\<close> when
  the detected extension is \<open>None\<close>, or when the lowercased current extension and the
  detected extension are equal after the alias normalisation of the specification;
  otherwise it returns the stem followed by the detected extension, and \<open>True\<close>.
\<close>

theorem get_corrected_filename_cases:
  "get_corrected_filename p d =
     (case d of
        None \<Rightarrow> (path_name p, False)
      | Some e \<Rightarrow>
          if alias_normalized_spec (lower (path_suffix p)) = alias_normalized_spec e
          then (path_name p, False)
          else (path_stem p @ e, True))"
  by (simp add: get_corrected_filename_def alias_lookup_spec Let_def split: option.splits)

text \<open>
  Claim C10. Extension correction is idempotent: for a file path \<open>p\<close> (its name is not
  empty) and a detected extension \<open>e\<close> among the values of \<open>FILETYPE_TO_EXT\<close>, when
  \<open>get_corrected_filename p e\<close> returns a corrected name \<open>n\<close>, then on every path whose
  name is \<open>n\<close> the function returns \<open>(n, False)\<close> for the same \<open>e\<close>.
\<close>

theorem get_corrected_filename_idempotent:
  assumes "e \<in> snd ` set FILETYPE_TO_EXT" and "path_name p \<noteq> []"
    and "get_corrected_filename p (Some e) = (n, True)" and "path_name q = n"
  shows "get_corrected_filename q (Some e) = (n, False)"
proof -
  from assms(1) obtain t
    where t: "e = CHR ''.'' # t" "t \<noteq> []" "CHR ''.'' \<notin> set t" "lower e = e"
    using table_ext_shape by blast
  from assms(3) have n: "n = path_stem p @ e"
    by (simp add: get_corrected_filename_def Let_def split: if_splits)
  have "path_suffix q = e"
    using suffix_of_dotted_name[OF stem_nonempty[OF assms(2)] t(2) t(3)] assms(4) n t(1)
    by simp
  then show ?thesis
    using t(4) assms(4) by (simp add: get_corrected_filename_def Let_def)
qed

theorem get_corrected_filename_idempotent_witness:
  "get_corrected_filename [''album'', ''b.PNG''] (Some ''.jpg'') = (''b.jpg'', True) \<and>
   get_corrected_filename [''out'', ''b.jpg''] (Some ''.jpg'') = (''b.jpg'', False)"
proof -
  have h1: "''.jpg'' \<in> snd ` set FILETYPE_TO_EXT"
    by (simp add: FILETYPE_TO_EXT_def)
  have h2: "path_name [''album'', ''b.PNG''] \<noteq> []"
    by (simp add: path_name_def)
  have h3: "get_corrected_filename [''album'', ''b.PNG''] (Some ''.jpg'') = (''b.jpg'', True)"
    by code_simp
  have h4: "path_name [''out'', ''b.jpg''] = ''b.jpg''"
    by (simp add: path_name_def)
  show ?thesis
    using h3 get_corrected_filename_idempotent [OF h1 h2 h3 h4] by simp
qed

section \<open>The monad of effects\<close>

lemma io_bind_Inr [simp]: "io_bind (evs, Inr x) f = (evs @ fst (f x), snd (f x))"
  by (simp add: io_bind_def split: prod.splits)

lemma io_bind_Inl [simp]: "io_bind (evs, Inl e) f = (evs, Inl e)"
  by (simp add: io_bind_def)

lemma io_bind_return [simp]: "io_bind (io_return x) f = f x"
  by (simp add: io_return_def)

lemma io_bind_emit [simp]: "io_bind (emit evs) f = (evs @ fst (f ()), snd (f ()))"
  by (simp add: emit_def)

lemma snd_io_bind:
  "snd (io_bind m f) = (case snd m of Inl e \<Rightarrow> Inl e | Inr x \<Rightarrow> snd (f x))"
  by (cases m) (auto simp: io_bind_def split: sum.splits prod.splits)

lemma fst_io_bind:
  "fst (io_bind m f) = (case snd m of Inl e \<Rightarrow> fst m | Inr x \<Rightarrow> fst m @ fst (f x))"
  by (cases m) (auto simp: io_bind_def split: sum.splits prod.splits)

section \<open>Counting the output of the external tool\<close>

lemma contains_iff: "contains sub s \<longleftrightarrow> (\<exists>p q. s = p @ sub @ q)"
proof (induction s)
  case Nil
  then show ?case by auto
next
  case (Cons c s)
  show ?case
  proof
    assume "contains sub (c # s)"
    then consider "startswith (c # s) sub" | "contains sub s" by auto
    then show "\<exists>p q. c # s = p @ sub @ q"
    proof cases
      case 1
      then have "c # s = [] @ sub @ drop (length sub) (c # s)"
        unfolding startswith_def by (metis append_Nil append_take_drop_id)
      then show ?thesis by blast
    next
      case 2
      then obtain p q where "s = p @ sub @ q" using Cons.IH by blast
      then have "c # s = (c # p) @ sub @ q" by simp
      then show ?thesis by blast
    qed
  next
    assume "\<exists>p q. c # s = p @ sub @ q"
    then obtain p q where pq: "c # s = p @ sub @ q" by blast
    show "contains sub (c # s)"
    proof (cases p)
      case Nil
      then have "startswith (c # s) sub" using pq by (simp add: startswith_def)
      then show ?thesis by simp
    next
      case (Cons a p')
      then have "s = p' @ sub @ q" using pq by simp
      then show ?thesis using Cons.IH by auto
    qed
  qed
qed

lemma strip_with_decompose: "\<exists>a b. s = a @ strip_with P s @ b"
proof -
  have 1: "s = takeWhile P s @ dropWhile P s" by simp
  let ?t = "dropWhile P s"
  have "rev ?t = takeWhile P (rev ?t) @ dropWhile P (rev ?t)" by simp
  then have "?t = rev (dropWhile P (rev ?t)) @ rev (takeWhile P (rev ?t))"
    by (metis rev_append rev_rev_ident)
  then have "s = takeWhile P s @ strip_with P s @ rev (takeWhile P (rev ?t))"
    unfolding strip_with_def using 1 by metis
  then show ?thesis by blast
qed

lemma strip_with_middle:
  assumes "sub \<noteq> []" "\<not> P (hd sub)" "\<not> P (last sub)"
  shows "strip_with P (p @ sub @ q) = dropWhile P p @ sub @ rev (dropWhile P (rev q))"
proof -
  obtain x r where sub: "sub = x # r" using assms(1) by (cases sub) auto
  obtain r' y where sub': "sub = r' @ [y]" using assms(1) by (metis rev_exhaust)
  have nx: "\<not> P x" using assms(2) sub by simp
  have ny: "\<not> P y" using assms(3) sub' by simp
  have "dropWhile P (p @ sub @ q) = dropWhile P p @ sub @ q"
    using nx sub by (simp add: dropWhile_append3)
  moreover have "rev (dropWhile P p @ sub @ q) = rev q @ y # rev r' @ rev (dropWhile P p)"
    using sub' by simp
  moreover have "dropWhile P (rev q @ y # rev r' @ rev (dropWhile P p)) = dropWhile P (rev q) @ y # rev r' @ rev (dropWhile P p)"
    using ny by (simp add: dropWhile_append3)
  ultimately show ?thesis
    unfolding strip_with_def using sub' by simp
qed

lemma contains_strip:
  assumes "sub \<noteq> []" "\<not> is_space (hd sub)" "\<not> is_space (last sub)"
  shows "contains sub (strip l) = contains sub l"
proof
  assume "contains sub (strip l)"
  then obtain p q where "strip l = p @ sub @ q" using contains_iff by blast
  moreover obtain a b where "l = a @ strip l @ b" unfolding strip_def using strip_with_decompose by blast
  ultimately have "l = (a @ p) @ sub @ (q @ b)" by simp
  then show "contains sub l" using contains_iff by blast
next
  assume "contains sub l"
  then obtain p q where "l = p @ sub @ q" using contains_iff by blast
  then have "strip l = dropWhile is_space p @ sub @ rev (dropWhile is_space (rev q))"
    unfolding strip_def using strip_with_middle[OF assms] by simp
  then show "contains sub (strip l)" using contains_iff by blast
qed

lemma takeWhile_rstrip:
  "takeWhile (\<lambda>c. \<not> P c) (rev (dropWhile P (rev r))) = takeWhile (\<lambda>c. \<not> P c) r"
proof (induction r)
  case Nil
  then show ?case by simp
next
  case (Cons y r)
  show ?case
  proof (cases "P y")
    case True
    then show ?thesis by (simp add: dropWhile_append)
  next
    case False
    then show ?thesis using Cons.IH by (simp add: dropWhile_append3)
  qed
qed

lemma split_first_strip: "split_first (strip l) = split_first l"
proof (cases "dropWhile is_space l")
  case Nil
  have "strip l = []" unfolding strip_def strip_with_def Nil by simp
  then show ?thesis unfolding split_first_def Nil by simp
next
  case (Cons x r)
  then have nx: "\<not> is_space x" by (metis dropWhile_eq_Cons_conv)
  have s: "strip l = x # rev (dropWhile is_space (rev r))"
    using Cons nx by (simp add: strip_def strip_with_def dropWhile_append3)
  show ?thesis
    using Cons nx s takeWhile_rstrip[of is_space r] by (simp add: split_first_def Let_def)
qed

lemma phrases: "contains ''image files updated'' (strip l) = contains ''image files updated'' l"
   "contains ''image files unchanged'' (strip l) = contains ''image files unchanged'' l"
  by (rule contains_strip; simp add: is_space_def)+

lemma count_lines_sum:
  "count_lines pf ls (u, n) = (u', n') \<Longrightarrow>
   u' + n' = u + n + sum_list (map (\<lambda>l. case leading_int pf (strip l) of Inr k \<Rightarrow> k | Inl _ \<Rightarrow> 0)
       (filter (\<lambda>l. contains ''image files updated'' (strip l)
                    \<or> contains ''image files unchanged'' (strip l)) ls))"
proof (induction ls arbitrary: u n)
  case Nil
  then show ?case by simp
next
  case (Cons l ls)
  show ?case
  proof (cases "contains ''image files updated'' (strip l)")
    case True
    then have "count_lines pf ls (case leading_int pf (strip l) of Inr k \<Rightarrow> u + k | Inl _ \<Rightarrow> u, n) = (u', n')"
      using Cons.prems by (simp add: Let_def)
    from Cons.IH[OF this] True show ?thesis by (simp split: sum.splits)
  next
    case False
    show ?thesis
    proof (cases "contains ''image files unchanged'' (strip l)")
      case True
      then have "count_lines pf ls (u, case leading_int pf (strip l) of Inr k \<Rightarrow> n + k | Inl _ \<Rightarrow> n) = (u', n')"
        using Cons.prems False by (simp add: Let_def)
      from Cons.IH[OF this] True False show ?thesis by (simp split: sum.splits)
    next
      case F2: False
      then have "count_lines pf ls (u, n) = (u', n')"
        using Cons.prems False by (simp add: Let_def)
      from Cons.IH[OF this] False F2 show ?thesis by simp
    qed
  qed
qed

lemma count_lines_success:
  "fst (count_lines pf (split_newline out) (0, 0)) + snd (count_lines pf (split_newline out) (0, 0))
     = success_count_spec pf out"
proof -
  obtain u n where un: "count_lines pf (split_newline out) (0, 0) = (u, n)"
    by (cases "count_lines pf (split_newline out) (0, 0)")
  have li: "\<And>l. leading_int pf (strip l) = leading_int pf l"
    by (simp add: leading_int_def split_first_strip)
  have sp: "leading_integer_spec pf = (\<lambda>l. case leading_int pf l of Inr k \<Rightarrow> k | Inl _ \<Rightarrow> 0)"
    by (rule ext) (simp add: leading_integer_spec_def)
  show ?thesis
    using count_lines_sum[OF un] un
    by (simp add: success_count_spec_def sp phrases li)
qed

lemma timestamps_normal_path:
  assumes "files \<noteq> []"
    and "write_argfile w (join_newline (argfile_lines w files)) = Inr ap"
    and "run_argfile w ap (join_newline (argfile_lines w files)) = Inr res"
    and "unlink w ap = None"
  shows "snd (batch_set_timestamps pf w files False) =
           Inr (success_count_spec pf (stdout res),
                int (length files) - success_count_spec pf (stdout res))"
  using assms count_lines_success[of pf "stdout res"]
  by (auto simp: batch_set_timestamps_def Let_def io_catch_def perform_def perform_unit_def
      io_return_def split: prod.splits)

lemma batch_set_timestamps_sum:
  assumes "snd (batch_set_timestamps pf w files dry) = Inr (s, e)"
  shows "s + e = int (length files)"
  using assms
  by (auto simp: batch_set_timestamps_def Let_def io_catch_def perform_def perform_unit_def
      io_return_def io_raise_def timestamps_handler_def io_bind_def
      split: prod.splits if_splits sum.splits option.splits)

lemma timestamps_exception_path:
  assumes "files \<noteq> []"
    and "write_argfile w (join_newline (argfile_lines w files)) = Inl e"
    and "is_Exception e" and "e \<noteq> FileNotFoundError"
  shows "snd (batch_set_timestamps pf w files False) = Inr (0, int (length files))"
  using assms
  by (simp add: batch_set_timestamps_def Let_def io_catch_def perform_def timestamps_handler_def)

text \<open>
  Claim C2. For a non-empty input list and any textual output of the external tool,
  \<open>batch_set_timestamps\<close> without \<open>dry_run\<close> returns \<open>(success_count, error_count)\<close>
  where \<open>success_count\<close> is the sum of the leading integers of the output lines that
  contain \<open>image files updated\<close> or \<open>image files unchanged\<close>, and the two counts add up
  to the length of the input list. The two counts add up to that length on every path
  that returns: the dry run returns \<open>(n, 0)\<close>, the empty input \<open>(0, 0)\<close>, and the
  exception path \<open>(0, n)\<close>.
\<close>

theorem batch_set_timestamps_counts:
  "(files \<noteq> [] \<longrightarrow>
      write_argfile w (join_newline (argfile_lines w files)) = Inr ap \<longrightarrow>
      run_argfile w ap (join_newline (argfile_lines w files)) = Inr res \<longrightarrow>
      unlink w ap = None \<longrightarrow>
      snd (batch_set_timestamps pf w files False) =
        Inr (success_count_spec pf (stdout res),
             int (length files) - success_count_spec pf (stdout res)))
   \<and> (\<forall>dry s e. snd (batch_set_timestamps pf w files dry) = Inr (s, e) \<longrightarrow>
         s + e = int (length files))
   \<and> (files \<noteq> [] \<longrightarrow> snd (batch_set_timestamps pf w files True) = Inr (int (length files), 0))
   \<and> snd (batch_set_timestamps pf w [] dry_run) = Inr (0, 0)
   \<and> (files \<noteq> [] \<longrightarrow>
        write_argfile w (join_newline (argfile_lines w files)) = Inl exc \<longrightarrow>
        is_Exception exc \<longrightarrow> exc \<noteq> FileNotFoundError \<longrightarrow>
        snd (batch_set_timestamps pf w files False) = Inr (0, int (length files)))"
proof (intro conjI allI impI)
  show "s + e = int (length files)" if "snd (batch_set_timestamps pf w files dry) = Inr (s, e)"
    for dry s e using that by (rule batch_set_timestamps_sum)
qed (simp_all add: timestamps_normal_path timestamps_exception_path,
     simp_all add: batch_set_timestamps_def io_return_def)

theorem batch_set_timestamps_counts_witness:
  "snd (batch_set_timestamps demo_platform demo_world demo_copied False) = Inr (1, 1)
   \<and> snd (batch_set_timestamps demo_platform demo_world demo_copied True) = Inr (2, 0)"
proof -
  have h1: "demo_copied \<noteq> []" by (simp add: demo_copied_def)
  have h2: "write_argfile demo_world (join_newline (argfile_lines demo_world demo_copied))
              = Inr ''/tmp/tmpk3v9.txt''"
    by (simp add: demo_world_def)
  have h3: "run_argfile demo_world ''/tmp/tmpk3v9.txt''
              (join_newline (argfile_lines demo_world demo_copied))
            = Inr \<lparr>returncode = 1, stdout = demo_write_output,
                   stderr = ''Error: Not a valid JPG - /out/trip/b.jpg''\<rparr>"
    by (simp add: demo_world_def)
  have h4: "unlink demo_world ''/tmp/tmpk3v9.txt'' = None"
    by (simp add: demo_world_def)
  have c: "success_count_spec demo_platform demo_write_output = 1"
    by code_simp
  have l: "int (length demo_copied) = 2" by (simp add: demo_copied_def)
  show ?thesis
    using batch_set_timestamps_counts [of demo_copied demo_world "''/tmp/tmpk3v9.txt''"
        "\<lparr>returncode = 1, stdout = demo_write_output,
          stderr = ''Error: Not a valid JPG - /out/trip/b.jpg''\<rparr>" demo_platform]
      h1 h2 h3 h4 c l
    by simp
qed

section \<open>Finding the albums\<close>






section \<open>Every media file is accounted for\<close>










end
